theory Spec2Isabelle
  imports Complex_Main "HOL-Library.Sublist"
begin

section \<open>Python values and exceptions\<close>

text \<open>
  The payloads of the recruiting API are decoded JSON: \<open>None\<close>, booleans, integers,
  strings, lists and dictionaries. A dictionary is kept as the list of its items;
  a key is looked up at its first occurrence. JSON numbers with a fraction or an
  exponent (Python floats) are outside the model: identifiers, page counts and
  salary bounds of the API are integers.
\<close>

datatype json =
    JNull
  | JBool bool
  | JInt int
  | JStr string
  | JList "json list"
  | JObj "(string \<times> json) list"

text \<open>
  The exception classes that the modules raise or catch. \<open>RequestException\<close> stands
  for \<open>requests.exceptions.RequestException\<close> with its subclasses (connection error,
  timeout, HTTP error status, undecodable body), \<open>DatabaseError\<close> for
  \<open>psycopg2.Error\<close> with its subclasses.
\<close>

datatype exn =
    KeyError
  | ValueError
  | TypeError
  | AttributeError
  | RequestException
  | DatabaseError

definition bind_exn :: "exn + 'a \<Rightarrow> ('a \<Rightarrow> exn + 'b) \<Rightarrow> exn + 'b" where
  "bind_exn m f = (case m of Inl e \<Rightarrow> Inl e | Inr x \<Rightarrow> f x)"

text \<open>\<open>d.get(key, default)\<close> on a dictionary.\<close>

definition dict_get :: "(string \<times> json) list \<Rightarrow> string \<Rightarrow> json \<Rightarrow> json" where
  "dict_get kvs k d = (case map_of kvs k of None \<Rightarrow> d | Some v \<Rightarrow> v)"

text \<open>
  \<open>x.get(key, default)\<close> on any decoded value: only a dictionary has the method,
  every other value raises \<open>AttributeError\<close>.
\<close>

fun py_get :: "json \<Rightarrow> string \<Rightarrow> json \<Rightarrow> exn + json" where
  "py_get (JObj kvs) k d = Inr (dict_get kvs k d)"
| "py_get _ k d = Inl AttributeError"

text \<open>
  The built-in \<open>int(x)\<close>. Reading a string is Python's own parser, taken as the
  parameter \<open>int_of_str\<close> (\<open>None\<close> where \<open>int\<close> raises \<open>ValueError\<close>).
\<close>

fun py_int :: "(string \<Rightarrow> int option) \<Rightarrow> json \<Rightarrow> exn + int" where
  "py_int int_of_str (JInt n) = Inr n"
| "py_int int_of_str (JBool b) = Inr (if b then 1 else 0)"
| "py_int int_of_str (JStr s) =
     (case int_of_str s of None \<Rightarrow> Inl ValueError | Some n \<Rightarrow> Inr n)"
| "py_int int_of_str JNull = Inl TypeError"
| "py_int int_of_str (JList xs) = Inl TypeError"
| "py_int int_of_str (JObj kvs) = Inl TypeError"

text \<open>\<open>x < n\<close> and \<open>x > n\<close> for a decoded value \<open>x\<close> and an integer \<open>n\<close>.\<close>

fun py_lt_int :: "json \<Rightarrow> int \<Rightarrow> exn + bool" where
  "py_lt_int (JInt a) n = Inr (a < n)"
| "py_lt_int (JBool b) n = Inr ((if b then 1 else 0) < n)"
| "py_lt_int _ n = Inl TypeError"

fun py_gt_int :: "json \<Rightarrow> int \<Rightarrow> exn + bool" where
  "py_gt_int (JInt a) n = Inr (a > n)"
| "py_gt_int (JBool b) n = Inr ((if b then 1 else 0) > n)"
| "py_gt_int _ n = Inl TypeError"

text \<open>\<open>needle in hay\<close> on strings: \<open>needle\<close> occurs as a contiguous run.\<close>

fun py_str_in :: "string \<Rightarrow> string \<Rightarrow> bool" where
  "py_str_in needle [] = (needle = [])"
| "py_str_in needle (c # cs) = (prefix needle (c # cs) \<or> py_str_in needle cs)"

section \<open>Record normalizer (\<open>vacancy_manager.py\<close>)\<close>

text \<open>
  The class \<open>Vacancy\<close>. Its constructor stores what it is given: the two identifiers
  come out of \<open>int\<close>, every other attribute is whatever value the caller passed.
\<close>

record Vacancy =
  vacancy_id :: int
  company_id :: int
  name :: json
  salary_from :: json
  salary_to :: json
  currency :: json
  area :: json
  experience :: json
  employment_type :: json
  description :: json
  url :: json
  published_at :: json

text \<open>The three attributes read from the \<open>salary\<close> sub-object, when it is not \<open>None\<close>.\<close>

definition parse_salary :: "json \<Rightarrow> exn + (json \<times> json \<times> json)" where
  "parse_salary salary =
     (if salary \<noteq> JNull then
        bind_exn (py_get salary ''from'' JNull) (\<lambda>sf.
        bind_exn (py_get salary ''to'' JNull) (\<lambda>st.
        bind_exn (py_get salary ''currency'' JNull) (\<lambda>cur.
        Inr (sf, st, cur))))
      else Inr (JNull, JNull, JNull))"

text \<open>\<open>vacancy_data.get(key, {}).get("name")\<close>.\<close>

definition nested_name :: "json \<Rightarrow> string \<Rightarrow> exn + json" where
  "nested_name vacancy_data k =
     bind_exn (py_get vacancy_data k (JObj [])) (\<lambda>sub. py_get sub ''name'' JNull)"

definition parse_from_api :: "(string \<Rightarrow> int option) \<Rightarrow> json \<Rightarrow> exn + Vacancy" where
  "parse_from_api int_of_str vacancy_data =
     bind_exn (py_get vacancy_data ''id'' JNull) (\<lambda>vid.
     bind_exn (py_get vacancy_data ''employer'' (JObj [])) (\<lambda>employer.
     bind_exn (py_get employer ''id'' JNull) (\<lambda>cid.
     bind_exn (py_get vacancy_data ''name'' JNull) (\<lambda>nm.
     bind_exn (py_get vacancy_data ''salary'' JNull) (\<lambda>salary.
     bind_exn (parse_salary salary) (\<lambda>(sf, st, cur).
     bind_exn (nested_name vacancy_data ''area'') (\<lambda>ar.
     bind_exn (nested_name vacancy_data ''experience'') (\<lambda>ex.
     bind_exn (nested_name vacancy_data ''employment'') (\<lambda>em.
     bind_exn (py_get vacancy_data ''description'' (JStr [])) (\<lambda>de.
     bind_exn (py_get vacancy_data ''alternate_url'' JNull) (\<lambda>ur.
     bind_exn (py_get vacancy_data ''published_at'' JNull) (\<lambda>pu.
     bind_exn (py_int int_of_str vid) (\<lambda>vid_int.
     bind_exn (py_int int_of_str cid) (\<lambda>cid_int.
     Inr \<lparr> vacancy_id = vid_int, company_id = cid_int, name = nm,
           salary_from = sf, salary_to = st, currency = cur,
           area = ar, experience = ex, employment_type = em,
           description = de, url = ur, published_at = pu \<rparr>))))))))))))))"

text \<open>
  \<open>extract_vacancies\<close>: the handler catches \<open>KeyError\<close>, \<open>ValueError\<close> and \<open>TypeError\<close>;
  an exception of another class leaves the loop and the function.
\<close>

definition caught_by_extract :: "exn \<Rightarrow> bool" where
  "caught_by_extract e = (e = KeyError \<or> e = ValueError \<or> e = TypeError)"

fun extract_loop :: "(string \<Rightarrow> int option) \<Rightarrow> json list \<Rightarrow> Vacancy list \<Rightarrow> exn + Vacancy list" where
  "extract_loop int_of_str [] vacancies = Inr vacancies"
| "extract_loop int_of_str (vacancy_data # rest) vacancies =
     (case parse_from_api int_of_str vacancy_data of
        Inr vacancy \<Rightarrow> extract_loop int_of_str rest (vacancies @ [vacancy])
      | Inl e \<Rightarrow>
          if caught_by_extract e then extract_loop int_of_str rest vacancies
          else Inl e)"

definition extract_vacancies :: "(string \<Rightarrow> int option) \<Rightarrow> json list \<Rightarrow> exn + Vacancy list" where
  "extract_vacancies int_of_str vacancies_data = extract_loop int_of_str vacancies_data []"

text \<open>
  \<open>filter_by_keyword\<close>: \<open>lower\<close> is Python's \<open>str.lower\<close>, a parameter. A name that
  is not a string has no method \<open>lower\<close>.
\<close>

fun filter_by_keyword ::
  "(string \<Rightarrow> string) \<Rightarrow> Vacancy list \<Rightarrow> string \<Rightarrow> exn + Vacancy list" where
  "filter_by_keyword lower [] keyword = Inr []"
| "filter_by_keyword lower (v # vacancies) keyword =
     (case name v of
        JStr s \<Rightarrow>
          (case filter_by_keyword lower vacancies keyword of
             Inl e \<Rightarrow> Inl e
           | Inr kept \<Rightarrow>
               Inr (if py_str_in (lower keyword) (lower s) then v # kept else kept))
      | _ \<Rightarrow> Inl AttributeError)"

text \<open>
  \<open>filter_by_salary_range\<close>, one test of the loop body after the other; \<open>Inr False\<close>
  is \<open>continue\<close>, \<open>Inr True\<close> is \<open>filtered.append(v)\<close>.
\<close>

definition keeps_salary :: "Vacancy \<Rightarrow> int option \<Rightarrow> int option \<Rightarrow> exn + bool" where
  "keeps_salary v lo hi =
     (if salary_from v = JNull \<and> salary_to v = JNull then Inr False
      else
        bind_exn (case lo of
                    None \<Rightarrow> Inr False
                  | Some l \<Rightarrow> if salary_to v = JNull then Inr True
                              else py_lt_int (salary_to v) l) (\<lambda>skip_lo.
        if skip_lo then Inr False
        else
          bind_exn (case hi of
                      None \<Rightarrow> Inr False
                    | Some h \<Rightarrow> if salary_from v = JNull then Inr True
                                else py_gt_int (salary_from v) h) (\<lambda>skip_hi.
          Inr (\<not> skip_hi))))"

fun filter_salary_loop ::
  "Vacancy list \<Rightarrow> int option \<Rightarrow> int option \<Rightarrow> Vacancy list \<Rightarrow> exn + Vacancy list" where
  "filter_salary_loop [] lo hi filtered = Inr filtered"
| "filter_salary_loop (v # vacancies) lo hi filtered =
     (case keeps_salary v lo hi of
        Inl e \<Rightarrow> Inl e
      | Inr keep \<Rightarrow>
          filter_salary_loop vacancies lo hi (if keep then filtered @ [v] else filtered))"

definition filter_by_salary_range ::
  "Vacancy list \<Rightarrow> int option \<Rightarrow> int option \<Rightarrow> exn + Vacancy list" where
  "filter_by_salary_range vacancies lo hi = filter_salary_loop vacancies lo hi []"

section \<open>API client (\<open>api_manager.py\<close>)\<close>

text \<open>
  The HTTP layer is the environment: a function from the request to what
  \<open>requests.get\<close> does with it. A response carries its status code and its body,
  decoded (\<open>None\<close> for a body that is not JSON).
\<close>

datatype request =
    GetVacancies int int int
  | GetEmployer int
  | GetVacancy int

datatype http_outcome =
    ConnectionFailed
  | TimedOut
  | Response nat "json option"

text \<open>
  The body of the \<open>try\<close> block shared by the three single-request operations:
  \<open>requests.get\<close>, \<open>raise_for_status\<close> (an HTTP error for a status from 400 to 599),
  \<open>response.json()\<close> (whose decoding error is a \<open>RequestException\<close> in requests 2.27
  and later).
\<close>

definition fetch_json :: "http_outcome \<Rightarrow> exn + json" where
  "fetch_json out =
     (case out of
        ConnectionFailed \<Rightarrow> Inl RequestException
      | TimedOut \<Rightarrow> Inl RequestException
      | Response status body \<Rightarrow>
          if 400 \<le> status \<and> status < 600 then Inl RequestException
          else (case body of None \<Rightarrow> Inl RequestException | Some j \<Rightarrow> Inr j))"

text \<open>
  \<open>return response.json()\<close> and \<open>except requests.exceptions.RequestException:
  return None\<close>. A body that decodes to \<open>null\<close> is returned as Python's \<open>None\<close>, which
  a caller cannot tell from a failure.
\<close>

definition except_request_exception :: "exn + json \<Rightarrow> exn + json option" where
  "except_request_exception r =
     (case r of
        Inr j \<Rightarrow> Inr (if j = JNull then None else Some j)
      | Inl e \<Rightarrow> if e = RequestException then Inr None else Inl e)"

definition get_employer_vacancies ::
  "(request \<Rightarrow> http_outcome) \<Rightarrow> int \<Rightarrow> int \<Rightarrow> int \<Rightarrow> exn + json option" where
  "get_employer_vacancies http employer_id page per_page =
     except_request_exception (fetch_json (http (GetVacancies employer_id page per_page)))"

definition get_employer_info :: "(request \<Rightarrow> http_outcome) \<Rightarrow> int \<Rightarrow> exn + json option" where
  "get_employer_info http employer_id =
     except_request_exception (fetch_json (http (GetEmployer employer_id)))"

definition get_vacancy_details :: "(request \<Rightarrow> http_outcome) \<Rightarrow> int \<Rightarrow> exn + json option" where
  "get_vacancy_details http vid =
     except_request_exception (fetch_json (http (GetVacancy vid)))"

text \<open>
  \<open>list.extend(x)\<close> iterates over \<open>x\<close>: the elements of a list, the characters of a
  string, the keys of a dictionary; any other value is not iterable.
\<close>

fun py_iter :: "json \<Rightarrow> exn + json list" where
  "py_iter (JList xs) = Inr xs"
| "py_iter (JStr s) = Inr (map (\<lambda>c. JStr [c]) s)"
| "py_iter (JObj kvs) = Inr (map (\<lambda>kv. JStr (fst kv)) kvs)"
| "py_iter _ = Inl TypeError"

text \<open>\<open>x - n\<close> for a decoded value \<open>x\<close> and an integer \<open>n\<close>.\<close>

fun py_sub_int :: "json \<Rightarrow> int \<Rightarrow> exn + int" where
  "py_sub_int (JInt a) n = Inr (a - n)"
| "py_sub_int (JBool b) n = Inr ((if b then 1 else 0) - n)"
| "py_sub_int _ n = Inl TypeError"

text \<open>
  The \<open>while True\<close> loop of \<open>get_all_vacancies_for_employer\<close>. \<open>api\<close> is
  \<open>get_employer_vacancies\<close> for the employer and the page size; \<open>requests\<close> records
  the page indices asked for, in order, and \<open>all_vacancies\<close> is the accumulator.
  The loop has no bound of its own (a server may report ever more pages), so it is
  a partial function: \<open>None\<close> is a run that never returns. The pause between two
  requests changes no value and is left out, as are the messages printed by the
  handlers of all modules.
\<close>

partial_function (option) fetch_pages ::
  "(int \<Rightarrow> exn + json option) \<Rightarrow> int \<Rightarrow> int list \<Rightarrow> json list
     \<Rightarrow> (int list \<times> (exn + json list)) option" where
  "fetch_pages api page requests all_vacancies =
     (case api page of
        Inl e \<Rightarrow> Some (requests @ [page], Inl e)
      | Inr None \<Rightarrow> Some (requests @ [page], Inr all_vacancies)
      | Inr (Some data) \<Rightarrow>
          (case py_get data ''items'' (JList []) of
             Inl e \<Rightarrow> Some (requests @ [page], Inl e)
           | Inr vacancies \<Rightarrow>
               (case py_iter vacancies of
                  Inl e \<Rightarrow> Some (requests @ [page], Inl e)
                | Inr vs \<Rightarrow>
                    (case py_get data ''pages'' (JInt 0) of
                       Inl e \<Rightarrow> Some (requests @ [page], Inl e)
                     | Inr pages \<Rightarrow>
                         (case py_sub_int pages 1 of
                            Inl e \<Rightarrow> Some (requests @ [page], Inl e)
                          | Inr last_page \<Rightarrow>
                              if page \<ge> last_page
                              then Some (requests @ [page], Inr (all_vacancies @ vs))
                              else fetch_pages api (page + 1) (requests @ [page])
                                     (all_vacancies @ vs))))))"

definition get_all_vacancies_for_employer ::
  "(request \<Rightarrow> http_outcome) \<Rightarrow> int \<Rightarrow> (int list \<times> (exn + json list)) option" where
  "get_all_vacancies_for_employer http employer_id =
     fetch_pages (\<lambda>page. get_employer_vacancies http employer_id page 100) 0 [] []"

text \<open>
  A page payload that carries the list \<open>its\<close> under \<open>items\<close> and reports the page
  count \<open>p\<close> under \<open>pages\<close>.
\<close>

definition page_reports :: "json \<Rightarrow> json list \<Rightarrow> int \<Rightarrow> bool" where
  "page_reports data its p =
     (py_get data ''items'' (JList []) = Inr (JList its) \<and>
      py_get data ''pages'' (JInt 0) = Inr (JInt p))"

section \<open>Relational store (\<open>db_manager.py\<close>, \<open>query_manager.py\<close>)\<close>

text \<open>
  The two tables of \<open>create_tables\<close>, a row per record. The surrogate key \<open>id\<close>
  (a serial filled by the store) is read by none of the statements modelled below
  and is left out. \<open>company_id\<close> and \<open>vacancy_id\<close> are \<open>UNIQUE NOT NULL\<close>, \<open>name\<close>
  is \<open>NOT NULL\<close>, the other columns are nullable.
\<close>

record company_row =
  c_company_id :: int
  c_name :: string
  c_site_url :: "string option"
  c_open_vacancies :: "int option"

record vacancy_row =
  v_vacancy_id :: int
  v_company_id :: int
  v_name :: string
  v_salary_from :: "int option"
  v_salary_to :: "int option"
  v_currency :: "string option"
  v_area :: "string option"
  v_experience :: "string option"
  v_employment_type :: "string option"
  v_description :: "string option"
  v_url :: "string option"
  v_published_at :: "string option"

record database =
  companies :: "company_row list"
  vacancies :: "vacancy_row list"

text \<open>The \<open>UNIQUE\<close> constraints of the two tables.\<close>

definition unique_keys :: "database \<Rightarrow> bool" where
  "unique_keys db =
     (distinct (map c_company_id (companies db)) \<and>
      distinct (map v_vacancy_id (vacancies db)))"

text \<open>The range of an \<open>INTEGER\<close> column and of arithmetic on such columns.\<close>

definition int4 :: "int \<Rightarrow> bool" where
  "int4 n = (- 2147483648 \<le> n \<and> n \<le> 2147483647)"

definition int4_opt :: "int option \<Rightarrow> bool" where
  "int4_opt x = (case x of None \<Rightarrow> True | Some n \<Rightarrow> int4 n)"

text \<open>
  What the driver may do at each call of one operation, for reasons outside the
  tables (server unreachable, connection lost, a value the column type rejects):
  each flag says that the call raises \<open>psycopg2.Error\<close>. Closing a cursor or a
  connection does not raise.
\<close>

record db_faults =
  connect_fails :: bool
  cursor_fails :: bool
  execute_fails :: bool
  fetch_fails :: bool
  commit_fails :: bool
  rollback_fails :: bool

definition no_faults :: db_faults where
  "no_faults = \<lparr> connect_fails = False, cursor_fails = False, execute_fails = False,
                  fetch_fails = False, commit_fails = False, rollback_fails = False \<rparr>"

text \<open>
  \<open>INSERT INTO companies ... ON CONFLICT (company_id) DO UPDATE SET name, site_url,
  open_vacancies\<close>.
\<close>

definition upsert_company :: "company_row \<Rightarrow> company_row list \<Rightarrow> company_row list" where
  "upsert_company new rows =
     (if c_company_id new \<in> set (map c_company_id rows)
      then map (\<lambda>r. if c_company_id r = c_company_id new
                     then r\<lparr> c_name := c_name new, c_site_url := c_site_url new,
                            c_open_vacancies := c_open_vacancies new \<rparr>
                     else r) rows
      else rows @ [new])"

definition execute_insert_company :: "database \<Rightarrow> company_row \<Rightarrow> exn + database" where
  "execute_insert_company db new =
     (if \<not> int4 (c_company_id new) \<or> \<not> int4_opt (c_open_vacancies new)
      then Inl DatabaseError
      else Inr (db\<lparr> companies := upsert_company new (companies db) \<rparr>))"

text \<open>
  \<open>INSERT INTO vacancies ... ON CONFLICT (vacancy_id) DO NOTHING\<close>. A row that is
  really inserted must reference a stored company (the foreign key).
\<close>

definition execute_insert_vacancy :: "database \<Rightarrow> vacancy_row \<Rightarrow> exn + database" where
  "execute_insert_vacancy db new =
     (if \<not> int4 (v_vacancy_id new) \<or> \<not> int4 (v_company_id new)
         \<or> \<not> int4_opt (v_salary_from new) \<or> \<not> int4_opt (v_salary_to new)
      then Inl DatabaseError
      else if v_vacancy_id new \<in> set (map v_vacancy_id (vacancies db))
      then Inr db
      else if v_company_id new \<notin> set (map c_company_id (companies db))
      then Inl DatabaseError
      else Inr (db\<lparr> vacancies := vacancies db @ [new] \<rparr>))"

text \<open>
  The handler of the two insert operations: \<open>conn.rollback()\<close>, then
  \<open>return False\<close>. The rollback is itself a call of the driver (on a connection
  that was lost it raises); the handlers of the read operations call nothing.
  The left summand of a result is an exception that leaves the operation.
\<close>

definition insert_failed :: "db_faults \<Rightarrow> database \<Rightarrow> (exn + bool) \<times> database" where
  "insert_failed f db =
     (if rollback_fails f then (Inl DatabaseError, db) else (Inr False, db))"

definition insert_company ::
  "db_faults \<Rightarrow> database \<Rightarrow> int \<Rightarrow> string \<Rightarrow> string option \<Rightarrow> int
     \<Rightarrow> (exn + bool) \<times> database" where
  "insert_company f db cid nm site_url open_vacancies =
     (if connect_fails f then (Inr False, db)
      else if cursor_fails f \<or> execute_fails f then insert_failed f db
      else
        (case execute_insert_company db
                \<lparr> c_company_id = cid, c_name = nm, c_site_url = site_url,
                  c_open_vacancies = Some open_vacancies \<rparr> of
           Inl e \<Rightarrow> insert_failed f db
         | Inr db' \<Rightarrow>
             if commit_fails f then insert_failed f db else (Inr True, db')))"

text \<open>\<open>insert_vacancy\<close>; its twelve arguments are given as the row they form.\<close>

definition insert_vacancy ::
  "db_faults \<Rightarrow> database \<Rightarrow> vacancy_row \<Rightarrow> (exn + bool) \<times> database" where
  "insert_vacancy f db new =
     (if connect_fails f then (Inr False, db)
      else if cursor_fails f \<or> execute_fails f then insert_failed f db
      else
        (case execute_insert_vacancy db new of
           Inl e \<Rightarrow> insert_failed f db
         | Inr db' \<Rightarrow>
             if commit_fails f then insert_failed f db else (Inr True, db')))"

text \<open>
  \<open>get_companies_and_vacancies_count\<close>, as far as its failure policy goes: \<open>results\<close>
  is what \<open>fetchall\<close> returns for the join.
\<close>

definition get_companies_and_vacancies_count ::
  "db_faults \<Rightarrow> (string \<times> nat) list \<Rightarrow> exn + (string \<times> nat) list" where
  "get_companies_and_vacancies_count f results =
     (if connect_fails f then Inr []
      else if cursor_fails f \<or> execute_fails f \<or> fetch_fails f then Inr []
      else Inr results)"

text \<open>
  The result of \<open>AVG\<close> over integers is the store's \<open>numeric\<close> quotient of the sum
  by the count, not the exact quotient: the division selects a number of decimal
  places from the sizes of the two operands (their leading digits in base 10000,
  aiming at 16 significant digits) and rounds the quotient to it, a half away
  from zero. So the average of 1, 2 and 2 is \<open>1.6666666666666667\<close>.
\<close>

fun nbase_weight :: "nat \<Rightarrow> nat" where
  "nbase_weight n = (if n < 10000 then 0 else Suc (nbase_weight (n div 10000)))"

definition nbase_first_digit :: "nat \<Rightarrow> nat" where
  "nbase_first_digit n = n div 10000 ^ nbase_weight n"

definition select_div_scale :: "int \<Rightarrow> nat \<Rightarrow> nat" where
  "select_div_scale s n =
     nat (min 1000 (max 0
       (16 - 4 * (int (nbase_weight (nat \<bar>s\<bar>)) - int (nbase_weight n)
                    - (if nbase_first_digit (nat \<bar>s\<bar>) \<le> nbase_first_digit n
                       then 1 else 0)))))"

definition round_half_away :: "rat \<Rightarrow> nat \<Rightarrow> rat" where
  "round_half_away q k = sgn q * of_int \<lfloor>\<bar>q\<bar> * 10 ^ k + 1 / 2\<rfloor> / 10 ^ k"

definition numeric_div :: "int \<Rightarrow> nat \<Rightarrow> rat" where
  "numeric_div s n = round_half_away (of_int s / of_nat n) (select_div_scale s n)"

text \<open>
  The query of \<open>get_avg_salary\<close>. The \<open>WHERE\<close> clause keeps the rows with a bound.
  Both bounds are \<open>INTEGER\<close>, so for a kept row the sum is an integer sum (out of
  range: an error) and \<open>/ 2\<close> is the store's integer division, which drops the
  fraction (rounds toward zero). \<open>AVG\<close> runs over the rows with a running sum and
  count; over no rows it is \<open>NULL\<close>.
\<close>

definition coalesce0 :: "int option \<Rightarrow> int" where
  "coalesce0 x = (case x of None \<Rightarrow> 0 | Some n \<Rightarrow> n)"

definition int_div2 :: "int \<Rightarrow> int" where
  "int_div2 n = (if 0 \<le> n then n div 2 else - ((- n) div 2))"

definition where_clause :: "vacancy_row \<Rightarrow> bool" where
  "where_clause r = (v_salary_from r \<noteq> None \<or> v_salary_to r \<noteq> None)"

definition select_expr :: "vacancy_row \<Rightarrow> exn + int" where
  "select_expr r =
     (if int4 (coalesce0 (v_salary_from r) + coalesce0 (v_salary_to r))
      then Inr (int_div2 (coalesce0 (v_salary_from r) + coalesce0 (v_salary_to r)))
      else Inl DatabaseError)"

fun avg_accum :: "vacancy_row list \<Rightarrow> int \<Rightarrow> nat \<Rightarrow> exn + (int \<times> nat)" where
  "avg_accum [] acc_sum acc_count = Inr (acc_sum, acc_count)"
| "avg_accum (r # rows) acc_sum acc_count =
     (if where_clause r
      then (case select_expr r of
              Inl e \<Rightarrow> Inl e
            | Inr x \<Rightarrow> avg_accum rows (acc_sum + x) (Suc acc_count))
      else avg_accum rows acc_sum acc_count)"

definition avg_salary_query :: "vacancy_row list \<Rightarrow> exn + rat option" where
  "avg_salary_query rows =
     (case avg_accum rows 0 0 of
        Inl e \<Rightarrow> Inl e
      | Inr (acc_sum, acc_count) \<Rightarrow>
          Inr (if acc_count = 0 then None else Some (numeric_div acc_sum acc_count)))"

definition get_avg_salary :: "db_faults \<Rightarrow> database \<Rightarrow> exn + rat option" where
  "get_avg_salary f db =
     (if connect_fails f then Inr None
      else if cursor_fails f \<or> execute_fails f then Inr None
      else
        (case avg_salary_query (vacancies db) of
           Inl e \<Rightarrow> Inr None
         | Inr result \<Rightarrow> if fetch_fails f then Inr None else Inr result))"

text \<open>
  The average in the words of the specification, without reference to the query:
  a row counts when not both bounds are absent; the sum of its bounds is the sum
  of those that are present.
\<close>

definition spec_has_bound :: "vacancy_row \<Rightarrow> bool" where
  "spec_has_bound r = (\<not> (v_salary_from r = None \<and> v_salary_to r = None))"

definition spec_bounds_sum :: "vacancy_row \<Rightarrow> int" where
  "spec_bounds_sum r = sum_list (List.map_filter (\<lambda>b. b) [v_salary_from r, v_salary_to r])"

text \<open>As the specification words it: the mean of the exact midpoints.\<close>

definition spec_avg_salary :: "vacancy_row list \<Rightarrow> rat option" where
  "spec_avg_salary rows =
     (if filter spec_has_bound rows = [] then None
      else Some (sum_list (map (\<lambda>r. of_int (spec_bounds_sum r) / 2)
                            (filter spec_has_bound rows))
                  / of_nat (length (filter spec_has_bound rows))))"

text \<open>
  As the code has it: each midpoint is the exact midpoint with its fraction
  dropped, and the mean is the store's rounded quotient.
\<close>

definition drop_fraction :: "rat \<Rightarrow> int" where
  "drop_fraction q = (if q < 0 then \<lceil>q\<rceil> else \<lfloor>q\<rfloor>)"

definition spec_int_midpoint :: "vacancy_row \<Rightarrow> int" where
  "spec_int_midpoint r = drop_fraction (of_int (spec_bounds_sum r) / 2)"

definition spec_int_avg :: "vacancy_row list \<Rightarrow> rat option" where
  "spec_int_avg rows =
     (if filter spec_has_bound rows = [] then None
      else Some (numeric_div
                   (sum_list (map spec_int_midpoint (filter spec_has_bound rows)))
                   (length (filter spec_has_bound rows))))"

section \<open>Orchestrator (\<open>main.py\<close>)\<close>

text \<open>
  The loop of \<open>load_companies_and_vacancies\<close> that stores the vacancies of one
  company and counts the calls of \<open>insert_vacancy\<close> that returned \<open>True\<close>. The
  \<open>i\<close>-th call meets the faults \<open>fs i\<close>; an exception leaving a call leaves the loop.
\<close>

fun insert_vacancies_loop ::
  "(nat \<Rightarrow> db_faults) \<Rightarrow> nat \<Rightarrow> database \<Rightarrow> vacancy_row list \<Rightarrow> nat
     \<Rightarrow> (exn + nat) \<times> database" where
  "insert_vacancies_loop fs i db [] added_count = (Inr added_count, db)"
| "insert_vacancies_loop fs i db (v # rest) added_count =
     (case insert_vacancy (fs i) db v of
        (Inl e, db') \<Rightarrow> (Inl e, db')
      | (Inr ok, db') \<Rightarrow>
          insert_vacancies_loop fs (Suc i) db' rest
            (if ok then added_count + 1 else added_count))"

text \<open>\<open>display_average_salary\<close>: what the caller prints.\<close>

datatype average_display = NoData | Average rat

definition display_average_salary :: "db_faults \<Rightarrow> database \<Rightarrow> exn + average_display" where
  "display_average_salary f db =
     bind_exn (get_avg_salary f db) (\<lambda>avg_salary.
       Inr (case avg_salary of None \<Rightarrow> NoData | Some a \<Rightarrow> Average a))"

section \<open>Notions used to state the properties\<close>

text \<open>
  Two concrete readings of the parameters, for examples: a reader of plain decimal
  numerals (Python's \<open>int\<close> reads these and more) and \<open>str.lower\<close> on ASCII text.
\<close>

definition digits_val :: "string \<Rightarrow> nat option" where
  "digits_val s =
     (if s \<noteq> [] \<and> list_all (\<lambda>c. 48 \<le> (of_char c :: nat) \<and> (of_char c :: nat) \<le> 57) s
      then Some (foldl (\<lambda>acc c. 10 * acc + (of_char c - 48)) 0 s)
      else None)"

definition decimal_int :: "string \<Rightarrow> int option" where
  "decimal_int s =
     (case s of
        [] \<Rightarrow> None
      | c # cs \<Rightarrow>
          if c = CHR ''-'' then map_option (\<lambda>n. - int n) (digits_val cs)
          else map_option int (digits_val s))"

fun lower_char :: "char \<Rightarrow> char" where
  "lower_char (Char b0 b1 b2 b3 b4 b5 b6 b7) =
     (if 65 \<le> (of_char (Char b0 b1 b2 b3 b4 b5 b6 b7) :: nat)
         \<and> (of_char (Char b0 b1 b2 b3 b4 b5 b6 b7) :: nat) \<le> 90
      then Char b0 b1 b2 b3 b4 True b6 b7
      else Char b0 b1 b2 b3 b4 b5 b6 b7)"

definition ascii_lower :: "string \<Rightarrow> string" where
  "ascii_lower s = map lower_char s"

text \<open>
  Records as the constructor's annotations declare them: the name a string, each
  salary bound an integer or \<open>None\<close>.
\<close>

definition str_named :: "Vacancy \<Rightarrow> bool" where
  "str_named v = (case name v of JStr s \<Rightarrow> True | _ \<Rightarrow> False)"

definition int_or_none :: "json \<Rightarrow> bool" where
  "int_or_none x = (case x of JNull \<Rightarrow> True | JInt n \<Rightarrow> True | _ \<Rightarrow> False)"

definition salary_typed :: "Vacancy \<Rightarrow> bool" where
  "salary_typed v = (int_or_none (salary_from v) \<and> int_or_none (salary_to v))"

text \<open>The name contains the keyword, both lowered.\<close>

definition name_contains :: "(string \<Rightarrow> string) \<Rightarrow> string \<Rightarrow> Vacancy \<Rightarrow> bool" where
  "name_contains lower keyword v =
     (case name v of JStr s \<Rightarrow> sublist (lower keyword) (lower s) | _ \<Rightarrow> False)"

text \<open>
  The three conditions of the salary filter as the specification words them: a
  bound is set; a requested floor is met by a present upper bound; a requested
  ceiling is met by a present lower bound.
\<close>

definition bound_of :: "json \<Rightarrow> int option" where
  "bound_of x = (case x of JInt n \<Rightarrow> Some n | _ \<Rightarrow> None)"

definition spec_in_salary_range :: "Vacancy \<Rightarrow> int option \<Rightarrow> int option \<Rightarrow> bool" where
  "spec_in_salary_range v lo hi =
     ((bound_of (salary_from v) \<noteq> None \<or> bound_of (salary_to v) \<noteq> None) \<and>
      (case lo of
         None \<Rightarrow> True
       | Some l \<Rightarrow> (case bound_of (salary_to v) of None \<Rightarrow> False | Some t \<Rightarrow> l \<le> t)) \<and>
      (case hi of
         None \<Rightarrow> True
       | Some h \<Rightarrow> (case bound_of (salary_from v) of None \<Rightarrow> False | Some f \<Rightarrow> f \<le> h)))"

text \<open>The items of a batch that normalize, in input order.\<close>

definition successful_parses :: "(string \<Rightarrow> int option) \<Rightarrow> json list \<Rightarrow> Vacancy list" where
  "successful_parses int_of_str items =
     List.map_filter
       (\<lambda>item. case parse_from_api int_of_str item of Inr v \<Rightarrow> Some v | Inl e \<Rightarrow> None)
       items"

text \<open>
  The shape of a raw vacancy object that the nested look-ups rely on: an entry
  \<open>employer\<close>, \<open>area\<close>, \<open>experience\<close> or \<open>employment\<close>, when present, is an object,
  and an entry \<open>salary\<close>, when present, is \<open>None\<close> or an object.
\<close>

definition object_if_present :: "(string \<times> json) list \<Rightarrow> string \<Rightarrow> bool" where
  "object_if_present kvs k =
     (case map_of kvs k of None \<Rightarrow> True | Some (JObj sub) \<Rightarrow> True | Some _ \<Rightarrow> False)"

definition salary_shape :: "(string \<times> json) list \<Rightarrow> bool" where
  "salary_shape kvs =
     (case map_of kvs ''salary'' of
        None \<Rightarrow> True | Some JNull \<Rightarrow> True | Some (JObj sub) \<Rightarrow> True | Some _ \<Rightarrow> False)"

definition nested_shape :: "(string \<times> json) list \<Rightarrow> bool" where
  "nested_shape kvs =
     (object_if_present kvs ''employer'' \<and> salary_shape kvs \<and>
      object_if_present kvs ''area'' \<and> object_if_present kvs ''experience'' \<and>
      object_if_present kvs ''employment'')"

text \<open>A value that \<open>int\<close> accepts: an integer, a boolean, a string it can read.\<close>

definition int_readable :: "(string \<Rightarrow> int option) \<Rightarrow> json \<Rightarrow> bool" where
  "int_readable int_of_str x =
     (case x of
        JInt n \<Rightarrow> True
      | JBool b \<Rightarrow> True
      | JStr s \<Rightarrow> int_of_str s \<noteq> None
      | _ \<Rightarrow> False)"

text \<open>
  The value at \<open>k2\<close> inside the object at \<open>k1\<close>, \<open>None\<close> when either is absent; and
  the value at a key of the object itself, or the default.
\<close>

definition sub_field :: "(string \<times> json) list \<Rightarrow> string \<Rightarrow> string \<Rightarrow> json" where
  "sub_field kvs k1 k2 =
     (case map_of kvs k1 of Some (JObj sub) \<Rightarrow> dict_get sub k2 JNull | _ \<Rightarrow> JNull)"

definition normalized :: "(string \<times> json) list \<Rightarrow> int \<Rightarrow> int \<Rightarrow> Vacancy" where
  "normalized kvs vid cid =
     \<lparr> vacancy_id = vid, company_id = cid,
       name = dict_get kvs ''name'' JNull,
       salary_from = sub_field kvs ''salary'' ''from'',
       salary_to = sub_field kvs ''salary'' ''to'',
       currency = sub_field kvs ''salary'' ''currency'',
       area = sub_field kvs ''area'' ''name'',
       experience = sub_field kvs ''experience'' ''name'',
       employment_type = sub_field kvs ''employment'' ''name'',
       description = dict_get kvs ''description'' (JStr []),
       url = dict_get kvs ''alternate_url'' JNull,
       published_at = dict_get kvs ''published_at'' JNull \<rparr>"

text \<open>The page indices the specification counts for a reported page count.\<close>

definition spec_requests :: "int \<Rightarrow> int list" where
  "spec_requests pages = [0..pages - 1]"

text \<open>
  Page \<open>j\<close> of an employer is served, carrying \<open>items j\<close> and the page count
  \<open>pages\<close>; the request for page \<open>k\<close> fails.
\<close>

definition page_ok ::
  "(request \<Rightarrow> http_outcome) \<Rightarrow> int \<Rightarrow> (int \<Rightarrow> json list) \<Rightarrow> int \<Rightarrow> int \<Rightarrow> bool" where
  "page_ok http employer_id items pages j =
     (\<exists>d. get_employer_vacancies http employer_id j 100 = Inr (Some d) \<and>
          page_reports d (items j) pages)"

definition page_fails :: "(request \<Rightarrow> http_outcome) \<Rightarrow> int \<Rightarrow> int \<Rightarrow> bool" where
  "page_fails http employer_id k =
     (get_employer_vacancies http employer_id k 100 = Inr None)"

text \<open>
  An operation of the store runs to its commit: no call of the driver raises for
  an outside reason. The integer columns of a vacancy row are in range.
\<close>

definition runs_through :: "db_faults \<Rightarrow> bool" where
  "runs_through f =
     (\<not> connect_fails f \<and> \<not> cursor_fails f \<and> \<not> execute_fails f \<and>
      \<not> fetch_fails f \<and> \<not> commit_fails f)"

definition int4_row :: "vacancy_row \<Rightarrow> bool" where
  "int4_row r =
     (int4 (v_vacancy_id r) \<and> int4 (v_company_id r) \<and>
      int4_opt (v_salary_from r) \<and> int4_opt (v_salary_to r))"

definition stored_vacancy :: "database \<Rightarrow> vacancy_row \<Rightarrow> bool" where
  "stored_vacancy db r = (v_vacancy_id r \<in> set (map v_vacancy_id (vacancies db)))"

section \<open>Example data\<close>

definition example_vacancy :: "string \<Rightarrow> json \<Rightarrow> json \<Rightarrow> Vacancy" where
  "example_vacancy nm sf st =
     \<lparr> vacancy_id = 1, company_id = 1, name = JStr nm, salary_from = sf, salary_to = st,
       currency = JNull, area = JNull, experience = JNull, employment_type = JNull,
       description = JStr [], url = JNull, published_at = JNull \<rparr>"

definition example_row :: "int \<Rightarrow> int \<Rightarrow> string \<Rightarrow> int option \<Rightarrow> int option \<Rightarrow> vacancy_row" where
  "example_row vid cid nm sf st =
     \<lparr> v_vacancy_id = vid, v_company_id = cid, v_name = nm,
       v_salary_from = sf, v_salary_to = st, v_currency = None, v_area = None,
       v_experience = None, v_employment_type = None, v_description = None,
       v_url = None, v_published_at = None \<rparr>"

definition empty_db :: database where
  "empty_db = \<lparr> companies = [], vacancies = [] \<rparr>"

definition one_company_db :: database where
  "one_company_db =
     \<lparr> companies = [\<lparr> c_company_id = 1, c_name = ''A'', c_site_url = None,
                       c_open_vacancies = Some 0 \<rparr>],
       vacancies = [] \<rparr>"

definition page_items :: "int \<Rightarrow> json list" where
  "page_items j = [JInt j]"

text \<open>
  Three servers: one reports three pages and serves each, one reports three pages
  and loses the connection on page 1, one reports zero pages.
\<close>

definition three_pages_http :: "request \<Rightarrow> http_outcome" where
  "three_pages_http r =
     (case r of
        GetVacancies e p n \<Rightarrow>
          Response 200 (Some (JObj [(''items'', JList (page_items p)), (''pages'', JInt 3)]))
      | _ \<Rightarrow> Response 404 None)"

definition page_one_down_http :: "request \<Rightarrow> http_outcome" where
  "page_one_down_http r =
     (case r of
        GetVacancies e p n \<Rightarrow>
          if p = 1 then ConnectionFailed
          else Response 200 (Some (JObj [(''items'', JList (page_items p)), (''pages'', JInt 3)]))
      | _ \<Rightarrow> Response 404 None)"

definition zero_pages_http :: "request \<Rightarrow> http_outcome" where
  "zero_pages_http r =
     (case r of
        GetVacancies e p n \<Rightarrow>
          Response 200 (Some (JObj [(''items'', JList (page_items p)), (''pages'', JInt 0)]))
      | _ \<Rightarrow> Response 404 None)"

section \<open>Properties of the record normalizer\<close>

subsection \<open>Filters\<close>

lemma py_str_in_sublist: "py_str_in xs ys = sublist xs ys"
  by (induction ys) (auto simp: sublist_Cons_right)

lemma filter_by_keyword_eq:
  "list_all str_named vs \<Longrightarrow>
   filter_by_keyword lower vs kw = Inr (filter (name_contains lower kw) vs)"
  by (induction vs)
     (auto simp: str_named_def name_contains_def py_str_in_sublist split: json.splits)

text \<open>
  A record whose name is not a string stops the comprehension with an
  \<open>AttributeError\<close>: the filter is total only on records typed as the constructor
  declares them.
\<close>

lemma filter_by_keyword_untyped:
  "\<not> list_all str_named vs \<Longrightarrow> filter_by_keyword lower vs kw = Inl AttributeError"
  by (induction vs) (auto simp: str_named_def split: json.splits sum.splits)

text \<open>
  Claim C8, as amended. For every keyword and every list of records whose names
  are all strings, \<open>filter_by_keyword\<close> returns exactly the records whose lowered
  name contains the lowered keyword: a subsequence of the input, so a subset of
  it in the original relative order. On a list that holds a record whose name is
  not a string (the name \<open>None\<close> that normalization gives an item without a name)
  it raises \<open>AttributeError\<close> and returns no list. The function is a function of
  its arguments alone: it reads no state and leaves its input as it is.
\<close>

theorem filter_by_keyword_subset_in_order:
  "filter_by_keyword lower vs keyword
     = (if list_all str_named vs
        then Inr (filter (name_contains lower keyword) vs)
        else Inl AttributeError)
   \<and> subseq (filter (name_contains lower keyword) vs) vs
   \<and> set (filter (name_contains lower keyword) vs) \<subseteq> set vs"
  by (simp add: filter_by_keyword_eq filter_by_keyword_untyped)

theorem filter_by_keyword_subset_in_order_witness:
  "filter_by_keyword ascii_lower
     [example_vacancy ''Senior Python Developer'' JNull JNull,
      example_vacancy ''Java Engineer'' JNull JNull,
      example_vacancy ''python intern'' JNull JNull] ''PYTHON''
   = Inr [example_vacancy ''Senior Python Developer'' JNull JNull,
          example_vacancy ''python intern'' JNull JNull]"
  using filter_by_keyword_subset_in_order
    [of ascii_lower
        "[example_vacancy ''Senior Python Developer'' JNull JNull,
          example_vacancy ''Java Engineer'' JNull JNull,
          example_vacancy ''python intern'' JNull JNull]" "''PYTHON''"]
  by (simp add: str_named_def name_contains_def py_str_in_sublist [symmetric]
      example_vacancy_def ascii_lower_def)

text \<open>
  The claim as it is worded fails on a record the normalizer itself returns: an
  item without a name normalizes to a record named \<open>None\<close>, and on the list of
  that record the filter raises instead of returning the (empty) list of
  matches.
\<close>

theorem filter_by_keyword_nameless_counterexample:
  "extract_vacancies decimal_int
     [JObj [(''id'', JInt 1), (''employer'', JObj [(''id'', JInt 2)])]]
     = Inr [normalized [(''id'', JInt 1), (''employer'', JObj [(''id'', JInt 2)])] 1 2]
   \<and> filter_by_keyword ascii_lower
       [normalized [(''id'', JInt 1), (''employer'', JObj [(''id'', JInt 2)])] 1 2] ''python''
     = Inl AttributeError
   \<and> filter_by_keyword ascii_lower
       [normalized [(''id'', JInt 1), (''employer'', JObj [(''id'', JInt 2)])] 1 2] ''python''
     \<noteq> Inr (filter (name_contains ascii_lower ''python'')
              [normalized [(''id'', JInt 1), (''employer'', JObj [(''id'', JInt 2)])] 1 2])"
  by (simp add: extract_vacancies_def parse_from_api_def bind_exn_def dict_get_def
      parse_salary_def nested_name_def normalized_def sub_field_def)

lemma keeps_salary_typed:
  "salary_typed v \<Longrightarrow> keeps_salary v lo hi = Inr (spec_in_salary_range v lo hi)"
  by (auto simp: salary_typed_def int_or_none_def keeps_salary_def spec_in_salary_range_def
        bound_of_def bind_exn_def split: json.splits option.splits)

lemma filter_salary_loop_typed:
  "list_all salary_typed vs \<Longrightarrow>
   filter_salary_loop vs lo hi acc
     = Inr (acc @ filter (\<lambda>v. spec_in_salary_range v lo hi) vs)"
  by (induction vs arbitrary: acc) (auto simp: keeps_salary_typed)

text \<open>
  Claim C5. For every list of records (their salary bounds integers or \<open>None\<close>) and
  optional bounds \<open>lo\<close> and \<open>hi\<close>, \<open>filter_by_salary_range\<close> keeps exactly the
  records that have a bound set, whose upper bound is present and not below \<open>lo\<close>
  when \<open>lo\<close> is given, and whose lower bound is present and not above \<open>hi\<close> when
  \<open>hi\<close> is given, in input order.
\<close>

theorem filter_by_salary_range_keeps:
  assumes "list_all salary_typed vs"
  shows "filter_by_salary_range vs lo hi
           = Inr (filter (\<lambda>v. spec_in_salary_range v lo hi) vs)"
  using assms by (simp add: filter_by_salary_range_def filter_salary_loop_typed)

text \<open>
  With \<open>lo = 100000\<close> and no \<open>hi\<close>, the record with bounds \<open>(None, 90000)\<close> is
  dropped and the record with bounds \<open>(None, 120000)\<close> is kept.
\<close>

theorem filter_by_salary_range_keeps_witness:
  "filter_by_salary_range
     [example_vacancy ''a'' JNull (JInt 90000), example_vacancy ''b'' JNull (JInt 120000)]
     (Some 100000) None
   = Inr [example_vacancy ''b'' JNull (JInt 120000)]"
  using filter_by_salary_range_keeps
    [of "[example_vacancy ''a'' JNull (JInt 90000),
          example_vacancy ''b'' JNull (JInt 120000)]" "Some 100000" None]
  by (simp add: salary_typed_def int_or_none_def example_vacancy_def
      spec_in_salary_range_def bound_of_def)

subsection \<open>Normalization of one item\<close>

lemma nested_name_shape:
  "object_if_present kvs k \<Longrightarrow> nested_name (JObj kvs) k = Inr (sub_field kvs k ''name'')"
  by (auto simp: object_if_present_def nested_name_def sub_field_def bind_exn_def dict_get_def
        split: option.splits json.splits)

lemma parse_salary_shape:
  "salary_shape kvs \<Longrightarrow>
   parse_salary (dict_get kvs ''salary'' JNull) =
     Inr (sub_field kvs ''salary'' ''from'', sub_field kvs ''salary'' ''to'',
          sub_field kvs ''salary'' ''currency'')"
  by (auto simp: salary_shape_def parse_salary_def sub_field_def bind_exn_def dict_get_def
        split: option.splits json.splits)

lemma parse_from_api_shape:
  assumes "nested_shape kvs"
  shows "parse_from_api ios (JObj kvs) =
     bind_exn (py_int ios (dict_get kvs ''id'' JNull)) (\<lambda>vid.
     bind_exn (py_int ios (sub_field kvs ''employer'' ''id'')) (\<lambda>cid.
     Inr (normalized kvs vid cid)))"
proof -
  from assms have e: "object_if_present kvs ''employer''" and s: "salary_shape kvs"
    and a: "object_if_present kvs ''area''" and x: "object_if_present kvs ''experience''"
    and m: "object_if_present kvs ''employment''"
    by (simp_all add: nested_shape_def)
  obtain sub where sub: "dict_get kvs ''employer'' (JObj []) = JObj sub"
      and subid: "dict_get sub ''id'' JNull = sub_field kvs ''employer'' ''id''"
    using e by (auto simp: object_if_present_def dict_get_def sub_field_def
        split: option.splits json.splits)
  show ?thesis
    unfolding parse_from_api_def
    by (simp add: bind_exn_def sub subid parse_salary_shape [OF s]
        nested_name_shape [OF a] nested_name_shape [OF x] nested_name_shape [OF m]
        normalized_def split: sum.splits)
qed

lemma py_int_readable: "(\<exists>n. py_int ios x = Inr n) = int_readable ios x"
  by (cases x) (auto simp: int_readable_def split: option.splits)

lemma py_int_error:
  "py_int ios x = Inl e \<Longrightarrow>
   (e = ValueError \<and> (\<exists>s. x = JStr s)) \<or> (e = TypeError \<and> (\<forall>s. x \<noteq> JStr s))"
  by (cases x) (auto split: option.splits)

text \<open>
  A nested entry that is present but not an object (\<open>"area": null\<close>) makes the
  look-up raise \<open>AttributeError\<close>, whatever the identifiers are.
\<close>

lemma parse_from_api_null_area:
  "parse_from_api ios
     (JObj [(''id'', JInt 1), (''employer'', JObj [(''id'', JInt 2)]), (''area'', JNull)])
   = Inl AttributeError"
  by (simp add: parse_from_api_def bind_exn_def dict_get_def parse_salary_def nested_name_def)

text \<open>
  Claim C4, as amended. Take a raw vacancy object whose entries \<open>employer\<close>,
  \<open>area\<close>, \<open>experience\<close> and \<open>employment\<close>, when present, are objects and whose
  entry \<open>salary\<close>, when present, is \<open>None\<close> or an object. Then \<open>parse_from_api\<close>
  succeeds exactly when \<open>int\<close> accepts both the identifier and the employer's
  identifier. On success the record holds the two integers; its name is the
  API's value, or \<open>None\<close> when the API gives none (it is not checked to be a
  string); every other field is the API's value when present and otherwise its
  default (the empty string for the description, \<open>None\<close> for the rest). On failure
  the exception is the one \<open>int\<close> raised: \<open>ValueError\<close> for a string it cannot
  read, \<open>TypeError\<close> for a missing identifier, \<open>None\<close>, a list or an object.
\<close>

theorem parse_from_api_normalizes:
  assumes "nested_shape kvs"
  shows "((\<exists>v. parse_from_api ios (JObj kvs) = Inr v)
            = (int_readable ios (dict_get kvs ''id'' JNull) \<and>
               int_readable ios (sub_field kvs ''employer'' ''id'')))
         \<and> (\<forall>v. parse_from_api ios (JObj kvs) = Inr v \<longrightarrow>
               py_int ios (dict_get kvs ''id'' JNull) = Inr (vacancy_id v) \<and>
               py_int ios (sub_field kvs ''employer'' ''id'') = Inr (company_id v) \<and>
               v = normalized kvs (vacancy_id v) (company_id v))
         \<and> (\<forall>e. parse_from_api ios (JObj kvs) = Inl e \<longrightarrow>
               (py_int ios (dict_get kvs ''id'' JNull) = Inl e \<or>
                py_int ios (sub_field kvs ''employer'' ''id'') = Inl e) \<and>
               (e = ValueError \<or> e = TypeError))"
proof -
  let ?a = "py_int ios (dict_get kvs ''id'' JNull)"
  let ?b = "py_int ios (sub_field kvs ''employer'' ''id'')"
  have eq: "parse_from_api ios (JObj kvs) =
     bind_exn ?a (\<lambda>vid. bind_exn ?b (\<lambda>cid. Inr (normalized kvs vid cid)))"
    by (rule parse_from_api_shape [OF assms])
  have ra: "int_readable ios (dict_get kvs ''id'' JNull) = (\<exists>n. ?a = Inr n)"
    by (simp add: py_int_readable)
  have rb: "int_readable ios (sub_field kvs ''employer'' ''id'') = (\<exists>n. ?b = Inr n)"
    by (simp add: py_int_readable)
  have 1: "(\<exists>v. parse_from_api ios (JObj kvs) = Inr v)
            = (int_readable ios (dict_get kvs ''id'' JNull) \<and>
               int_readable ios (sub_field kvs ''employer'' ''id''))"
    unfolding eq ra rb by (cases ?a; cases ?b) (simp_all add: bind_exn_def)
  have 2: "py_int ios (dict_get kvs ''id'' JNull) = Inr (vacancy_id v) \<and>
           py_int ios (sub_field kvs ''employer'' ''id'') = Inr (company_id v) \<and>
           v = normalized kvs (vacancy_id v) (company_id v)"
    if "parse_from_api ios (JObj kvs) = Inr v" for v
    using that unfolding eq
    by (cases ?a; cases ?b) (auto simp: bind_exn_def normalized_def)
  have 3: "(?a = Inl e \<or> ?b = Inl e) \<and> (e = ValueError \<or> e = TypeError)"
    if "parse_from_api ios (JObj kvs) = Inl e" for e
  proof -
    from that have "?a = Inl e \<or> ?b = Inl e"
      unfolding eq by (cases ?a; cases ?b) (auto simp: bind_exn_def)
    then show ?thesis using py_int_error by blast
  qed
  from 1 2 3 show ?thesis by blast
qed

theorem parse_from_api_normalizes_witness:
  "parse_from_api decimal_int
     (JObj [(''id'', JStr ''12''), (''name'', JStr ''Dev''),
            (''employer'', JObj [(''id'', JInt 2)]),
            (''salary'', JObj [(''from'', JInt 100000)])])
   = Inr \<lparr> vacancy_id = 12, company_id = 2, name = JStr ''Dev'',
           salary_from = JInt 100000, salary_to = JNull, currency = JNull,
           area = JNull, experience = JNull, employment_type = JNull,
           description = JStr [], url = JNull, published_at = JNull \<rparr>"
proof -
  let ?kvs = "[(''id'', JStr ''12''), (''name'', JStr ''Dev''),
               (''employer'', JObj [(''id'', JInt 2)]),
               (''salary'', JObj [(''from'', JInt 100000)])]"
  have shape: "nested_shape ?kvs"
    by (simp add: nested_shape_def object_if_present_def salary_shape_def)
  have "int_readable decimal_int (dict_get ?kvs ''id'' JNull) \<and>
        int_readable decimal_int (sub_field ?kvs ''employer'' ''id'')"
    by (simp add: int_readable_def dict_get_def sub_field_def decimal_int_def digits_val_def)
  with parse_from_api_normalizes [OF shape, of decimal_int]
  obtain v where v: "parse_from_api decimal_int (JObj ?kvs) = Inr v"
    and "py_int decimal_int (dict_get ?kvs ''id'' JNull) = Inr (vacancy_id v)"
    and "py_int decimal_int (sub_field ?kvs ''employer'' ''id'') = Inr (company_id v)"
    and "v = normalized ?kvs (vacancy_id v) (company_id v)"
    by blast
  then have "v = normalized ?kvs 12 2"
    by (simp add: dict_get_def sub_field_def decimal_int_def digits_val_def)
  with v show ?thesis
    by (simp add: normalized_def dict_get_def sub_field_def)
qed

text \<open>
  The claim as it is worded fails: an object without a name normalizes to a
  record whose name is \<open>None\<close>, not a string; and an identifier that is a string
  but not a numeral raises \<open>ValueError\<close>, neither a type nor a key error.
\<close>

theorem parse_from_api_name_counterexample:
  "parse_from_api decimal_int (JObj [(''id'', JInt 1), (''employer'', JObj [(''id'', JInt 2)])])
     = Inr (normalized [(''id'', JInt 1), (''employer'', JObj [(''id'', JInt 2)])] 1 2)
   \<and> name (normalized [(''id'', JInt 1), (''employer'', JObj [(''id'', JInt 2)])] 1 2) = JNull
   \<and> \<not> str_named (normalized [(''id'', JInt 1), (''employer'', JObj [(''id'', JInt 2)])] 1 2)
   \<and> parse_from_api decimal_int
        (JObj [(''id'', JStr ''abc''), (''employer'', JObj [(''id'', JInt 2)])])
     = Inl ValueError"
  by (simp add: parse_from_api_def bind_exn_def dict_get_def parse_salary_def nested_name_def
      normalized_def sub_field_def str_named_def decimal_int_def digits_val_def)

subsection \<open>Normalization of a batch\<close>

lemma extract_loop_caught:
  "\<forall>item \<in> set items. \<forall>e. parse_from_api ios item = Inl e \<longrightarrow> caught_by_extract e \<Longrightarrow>
   extract_loop ios items acc = Inr (acc @ successful_parses ios items)"
  by (induction items arbitrary: acc)
     (auto simp: successful_parses_def map_filter_simps split: sum.splits)

text \<open>
  As long as every failing item fails with one of the three caught classes, the
  batch is the successful parses in input order.
\<close>

lemma extract_vacancies_caught:
  "\<forall>item \<in> set items. \<forall>e. parse_from_api ios item = Inl e \<longrightarrow> caught_by_extract e \<Longrightarrow>
   extract_vacancies ios items = Inr (successful_parses ios items)"
  by (simp add: extract_vacancies_def extract_loop_caught)

text \<open>
  The first item that fails with another class ends the batch: nothing is
  returned, the items after it are not looked at.
\<close>

lemma extract_loop_uncaught:
  "parse_from_api ios item = Inl e \<Longrightarrow> \<not> caught_by_extract e \<Longrightarrow>
   \<forall>x \<in> set before. \<forall>e'. parse_from_api ios x = Inl e' \<longrightarrow> caught_by_extract e' \<Longrightarrow>
   extract_loop ios (before @ item # rest) acc = Inl e"
  by (induction before arbitrary: acc) (auto split: sum.splits)

text \<open>
  Claim C6, at the input where the code departs from it: a batch of two items,
  the first with \<open>"area": null\<close>, the second well formed. The claim has the first
  item skipped and the second returned; the code raises \<open>AttributeError\<close> out of
  \<open>extract_vacancies\<close> and returns nothing.
\<close>

theorem extract_vacancies_null_area_aborts:
  "extract_vacancies ios
     [JObj [(''id'', JInt 1), (''employer'', JObj [(''id'', JInt 2)]), (''area'', JNull)],
      JObj [(''id'', JInt 3), (''employer'', JObj [(''id'', JInt 2)])]]
   = Inl AttributeError"
  by (simp add: extract_vacancies_def parse_from_api_null_area caught_by_extract_def)

section \<open>Properties of the API client\<close>

text \<open>
  The three single-request operations never let an exception out: a network
  error, a timeout, an error status and an undecodable body all end as \<open>None\<close>.
\<close>

lemma except_fetch_json_returns: "\<exists>r. except_request_exception (fetch_json out) = Inr r"
  by (cases out)
     (auto simp: except_request_exception_def fetch_json_def split: option.splits)

lemma single_requests_return:
  "(\<exists>r. get_employer_vacancies http e p n = Inr r) \<and>
   (\<exists>r. get_employer_info http e = Inr r) \<and>
   (\<exists>r. get_vacancy_details http v = Inr r)"
  by (simp add: get_employer_vacancies_def get_employer_info_def get_vacancy_details_def
      except_fetch_json_returns)

lemma single_request_failures:
  "except_request_exception (fetch_json ConnectionFailed) = Inr None"
  "except_request_exception (fetch_json TimedOut) = Inr None"
  "400 \<le> status \<Longrightarrow> status < 600 \<Longrightarrow>
     except_request_exception (fetch_json (Response status body)) = Inr None"
  by (simp_all add: except_request_exception_def fetch_json_def)

subsection \<open>Pagination\<close>

lemma fetch_pages_fail:
  "api page = Inr None \<Longrightarrow> fetch_pages api page reqs acc = Some (reqs @ [page], Inr acc)"
  by (subst fetch_pages.simps) simp

lemma fetch_pages_last:
  "api page = Inr (Some d) \<Longrightarrow> page_reports d its pages \<Longrightarrow> page \<ge> pages - 1 \<Longrightarrow>
   fetch_pages api page reqs acc = Some (reqs @ [page], Inr (acc @ its))"
  by (subst fetch_pages.simps) (auto simp: page_reports_def)

lemma fetch_pages_next:
  "api page = Inr (Some d) \<Longrightarrow> page_reports d its pages \<Longrightarrow> page < pages - 1 \<Longrightarrow>
   fetch_pages api page reqs acc = fetch_pages api (page + 1) (reqs @ [page]) (acc @ its)"
  by (subst fetch_pages.simps) (auto simp: page_reports_def)

text \<open>
  The loop from page \<open>page\<close> on, when the pages before \<open>k\<close> are served and either
  \<open>k\<close> is the first page whose request fails or \<open>k\<close> is past the last page.
\<close>

lemma fetch_pages_run:
  assumes "n = nat (k - page)" "0 \<le> page" "page \<le> k" "k \<le> max 1 pages" "page < max 1 pages"
    and "\<forall>j. page \<le> j \<and> j < k \<longrightarrow>
           (\<exists>d. api j = Inr (Some d) \<and> page_reports d (items j) pages)"
    and "k < max 1 pages \<longrightarrow> api k = Inr None"
  shows "fetch_pages api page reqs acc =
     Some (reqs @ [page..min k (max 1 pages - 1)],
           Inr (acc @ concat (map items [page..k - 1])))"
  using assms
proof (induction n arbitrary: page reqs acc)
  case 0
  then have "k = page" by simp
  with 0 show ?case by (simp add: fetch_pages_fail)
next
  case (Suc n)
  then have lt: "page < k" by linarith
  with Suc.prems obtain d where d: "api page = Inr (Some d)" "page_reports d (items page) pages"
    by auto
  show ?case
  proof (cases "page \<ge> pages - 1")
    case True
    with Suc.prems lt have "k = page + 1" "max 1 pages - 1 = page" by linarith+
    then show ?thesis using d True by (simp add: fetch_pages_last)
  next
    case False
    then have nx: "page < pages - 1" by simp
    have "fetch_pages api (page + 1) (reqs @ [page]) (acc @ items page) =
       Some ((reqs @ [page]) @ [page + 1..min k (max 1 pages - 1)],
             Inr ((acc @ items page) @ concat (map items [page + 1..k - 1])))"
      using Suc.prems nx lt by (intro Suc.IH) auto
    moreover have "[page..min k (max 1 pages - 1)] = page # [page + 1..min k (max 1 pages - 1)]"
      using lt nx by (intro upto_rec1) linarith
    moreover have "[page..k - 1] = page # [page + 1..k - 1]"
      using lt by (intro upto_rec1) linarith
    ultimately show ?thesis using d nx by (simp add: fetch_pages_next)
  qed
qed

text \<open>
  Claim C1, as amended. Against a server that reports the fixed page count
  \<open>pages\<close>, \<open>get_all_vacancies_for_employer\<close> returns, and asks for the pages
  \<open>0, 1, 2, ...\<close> in order. When every request succeeds it issues exactly
  \<open>max 1 pages\<close> requests, for the indices \<open>0\<close> to \<open>max 1 pages - 1\<close> (the first
  page is always requested), and returns the items of these pages in page order.
  When page \<open>k\<close> is the first whose request fails, it has issued the requests
  \<open>0\<close> to \<open>k\<close>, stops, and returns exactly the items of the pages \<open>0\<close> to \<open>k - 1\<close>:
  the empty list when the first request fails. Below, \<open>k\<close> is the first failing
  page, or \<open>max 1 pages\<close> when none fails.
\<close>

theorem get_all_vacancies_pages:
  assumes "0 \<le> k" "k \<le> max 1 pages"
    and "\<forall>j. 0 \<le> j \<and> j < k \<longrightarrow> page_ok http employer_id items pages j"
    and "k < max 1 pages \<longrightarrow> page_fails http employer_id k"
  shows "get_all_vacancies_for_employer http employer_id =
     Some ([0..min k (max 1 pages - 1)], Inr (concat (map items [0..k - 1])))"
proof -
  have "fetch_pages (\<lambda>page. get_employer_vacancies http employer_id page 100) 0 [] [] =
     Some ([] @ [0..min k (max 1 pages - 1)], Inr ([] @ concat (map items [0..k - 1])))"
    using assms
    by (intro fetch_pages_run [where n = "nat (k - 0)"])
       (auto simp: page_ok_def page_fails_def)
  then show ?thesis by (simp add: get_all_vacancies_for_employer_def)
qed

text \<open>
  A server that reports three pages: three requests, the items of the pages 0, 1
  and 2 in order. The same server with page 1 down: the requests 0 and 1, and the
  items of page 0 alone.
\<close>

theorem get_all_vacancies_pages_witness:
  "get_all_vacancies_for_employer three_pages_http 3529
     = Some ([0, 1, 2], Inr [JInt 0, JInt 1, JInt 2])
   \<and> get_all_vacancies_for_employer page_one_down_http 3529
     = Some ([0, 1], Inr [JInt 0])"
proof -
  have ok3: "\<forall>j. 0 \<le> j \<and> j < 3 \<longrightarrow> page_ok three_pages_http 3529 page_items 3 j"
    by (simp add: page_ok_def three_pages_http_def get_employer_vacancies_def
        except_request_exception_def fetch_json_def page_reports_def dict_get_def)
  have a: "get_all_vacancies_for_employer three_pages_http 3529
     = Some ([0..min 3 (max 1 3 - 1)], Inr (concat (map page_items [0..3 - 1])))"
    using ok3 by (intro get_all_vacancies_pages) simp_all
  have ok1: "\<forall>j. 0 \<le> j \<and> j < 1 \<longrightarrow> page_ok page_one_down_http 3529 page_items 3 j"
    by (auto simp: page_ok_def page_one_down_http_def get_employer_vacancies_def
        except_request_exception_def fetch_json_def page_reports_def dict_get_def)
  have down: "page_fails page_one_down_http 3529 1"
    by (simp add: page_fails_def page_one_down_http_def get_employer_vacancies_def
        except_request_exception_def fetch_json_def)
  have b: "get_all_vacancies_for_employer page_one_down_http 3529
     = Some ([0..min 1 (max 1 3 - 1)], Inr (concat (map page_items [0..1 - 1])))"
    using ok1 down by (intro get_all_vacancies_pages) simp_all
  have u: "[0..2] = [0, 1, 2::int]" "[0..1] = [0, 1::int]" "[0..0] = [0::int]"
    by (simp_all add: upto_rec1)
  from a b show ?thesis by (simp add: u page_items_def)
qed

text \<open>
  The claim as it is worded fails at a page count of zero: it has no request
  issued and nothing returned, while the code asks for page 0 and returns its
  items.
\<close>

theorem get_all_vacancies_zero_pages_counterexample:
  "get_all_vacancies_for_employer zero_pages_http 3529 = Some ([0], Inr [JInt 0])
   \<and> get_all_vacancies_for_employer zero_pages_http 3529
       \<noteq> Some (spec_requests 0, Inr (concat (map page_items (spec_requests 0))))"
  by (simp add: get_all_vacancies_for_employer_def fetch_pages.simps zero_pages_http_def
      get_employer_vacancies_def except_request_exception_def fetch_json_def dict_get_def
      page_items_def spec_requests_def)

section \<open>Properties of the store operations\<close>

subsection \<open>Average salary\<close>

text \<open>The query's row test and expression against the specification's wording.\<close>

lemma where_clause_spec: "where_clause r = spec_has_bound r"
  by (auto simp: where_clause_def spec_has_bound_def)

lemma coalesce_sum_spec:
  "coalesce0 (v_salary_from r) + coalesce0 (v_salary_to r) = spec_bounds_sum r"
  by (cases "v_salary_from r"; cases "v_salary_to r")
     (simp_all add: coalesce0_def spec_bounds_sum_def map_filter_simps)

lemma int_div2_drop_fraction: "int_div2 n = drop_fraction (of_int n / 2)"
proof (cases "0 \<le> n")
  case True
  have "\<lfloor>(of_int n :: rat) / of_int 2\<rfloor> = n div 2"
    by (rule floor_divide_of_int_eq)
  with True show ?thesis by (simp add: int_div2_def drop_fraction_def)
next
  case False
  have "\<lfloor>(of_int (- n) :: rat) / of_int 2\<rfloor> = (- n) div 2"
    by (rule floor_divide_of_int_eq)
  then have "\<lceil>(of_int n :: rat) / 2\<rceil> = - ((- n) div 2)"
    by (simp add: ceiling_def)
  with False show ?thesis by (simp add: int_div2_def drop_fraction_def)
qed

lemma select_expr_spec:
  "int4 (spec_bounds_sum r) \<Longrightarrow> select_expr r = Inr (spec_int_midpoint r)"
  by (simp add: select_expr_def coalesce_sum_spec spec_int_midpoint_def int_div2_drop_fraction)

lemma select_expr_overflow:
  "\<not> int4 (spec_bounds_sum r) \<Longrightarrow> select_expr r = Inl DatabaseError"
  by (simp add: select_expr_def coalesce_sum_spec)

lemma avg_accum_spec:
  "\<forall>r \<in> set rows. spec_has_bound r \<longrightarrow> int4 (spec_bounds_sum r) \<Longrightarrow>
   avg_accum rows s c =
     Inr (s + sum_list (map spec_int_midpoint (filter spec_has_bound rows)),
          c + length (filter spec_has_bound rows))"
  by (induction rows arbitrary: s c) (simp_all add: where_clause_spec select_expr_spec)

lemma avg_accum_no_bounds:
  "\<forall>r \<in> set rows. v_salary_from r = None \<and> v_salary_to r = None \<Longrightarrow>
   avg_accum rows s c = Inr (s, c)"
  by (induction rows arbitrary: s c) (simp_all add: where_clause_def)

lemma avg_salary_query_no_bounds:
  "\<forall>r \<in> set rows. v_salary_from r = None \<and> v_salary_to r = None \<Longrightarrow>
   avg_salary_query rows = Inr None"
  by (simp add: avg_salary_query_def avg_accum_no_bounds)

text \<open>\<open>get_avg_salary\<close> never lets an exception out.\<close>

lemma get_avg_salary_returns: "\<exists>r. get_avg_salary f db = Inr r"
  by (simp add: get_avg_salary_def split: sum.splits)

text \<open>
  The store's quotient against the exact one: it is the exact quotient wherever
  the count divides the sum, and otherwise within half a unit of the last
  decimal place it keeps.
\<close>

lemma round_half_away_int: "round_half_away (of_int m) k = of_int m"
proof -
  have "\<bar>(of_int m :: rat)\<bar> * 10 ^ k = of_int (\<bar>m\<bar> * 10 ^ k)" by simp
  then have "\<lfloor>\<bar>(of_int m :: rat)\<bar> * 10 ^ k + 1 / 2\<rfloor> = \<bar>m\<bar> * 10 ^ k"
    by (simp only: floor_eq_iff) simp
  then have "round_half_away (of_int m) k = sgn (of_int m) * (of_int \<bar>m\<bar> :: rat)"
    by (simp add: round_half_away_def)
  also have "\<dots> = of_int m"
    by (simp add: sgn_if)
  finally show ?thesis .
qed

lemma numeric_div_exact:
  assumes "0 < n" and "int n dvd s"
  shows "numeric_div s n = of_int s / of_nat n"
proof -
  from assms(2) obtain m where m: "s = int n * m" by (auto simp: dvd_def)
  with assms(1) have "(of_int s :: rat) / of_nat n = of_int m" by simp
  then show ?thesis by (simp add: numeric_div_def round_half_away_int)
qed

lemma round_half_away_close: "\<bar>round_half_away q k - q\<bar> \<le> 1 / (2 * 10 ^ k)"
proof -
  let ?y = "\<bar>q\<bar> * 10 ^ k"
  let ?z = "(of_int \<lfloor>?y + 1 / 2\<rfloor> :: rat)"
  have p: "(0 :: rat) < 10 ^ k" by simp
  have "?z \<le> ?y + 1 / 2" by (rule of_int_floor_le)
  moreover have "?y + 1 / 2 < ?z + 1"
    using floor_correct [of "?y + 1 / 2"] by simp
  ultimately have d: "\<bar>?z - ?y\<bar> \<le> 1 / 2" by linarith
  have "q = sgn q * \<bar>q\<bar>" by (simp add: sgn_if)
  then have "q = sgn q * ?y / 10 ^ k" by simp
  then have "round_half_away q k - q = sgn q * ?z / 10 ^ k - sgn q * ?y / 10 ^ k"
    by (simp add: round_half_away_def)
  also have "\<dots> = sgn q * (?z - ?y) / 10 ^ k"
    by (simp add: algebra_simps diff_divide_distrib)
  finally have "\<bar>round_half_away q k - q\<bar> = \<bar>sgn q\<bar> * \<bar>?z - ?y\<bar> / 10 ^ k"
    by (simp add: abs_mult)
  also have "\<dots> \<le> \<bar>?z - ?y\<bar> / 10 ^ k"
    by (simp add: sgn_if divide_right_mono)
  also have "\<dots> \<le> (1 / 2) / 10 ^ k"
    using d p by (intro divide_right_mono) simp_all
  finally show ?thesis by simp
qed

lemma numeric_div_close:
  "\<bar>numeric_div s n - of_int s / of_nat n\<bar> \<le> 1 / (2 * 10 ^ select_div_scale s n)"
  by (simp add: numeric_div_def round_half_away_close)

text \<open>
  Claim C2, as amended. When the query runs through, \<open>get_avg_salary\<close> returns
  the store's average, over exactly the rows where not both bounds are absent,
  of the integer midpoint: the sum of the bounds that are present, halved, with
  the fraction dropped. The store's average is the quotient of the sum of these
  midpoints by their number, rounded to the decimal places its division keeps:
  it is within half a unit of the last kept place of the exact quotient, and
  equal to it when the number of rows divides the sum. With no such row the
  result is \<open>None\<close>. (The sums of bounds are in the range of the integer type.)
\<close>

theorem get_avg_salary_integer_midpoints:
  assumes "runs_through f"
    and "\<forall>r \<in> set (vacancies db). spec_has_bound r \<longrightarrow> int4 (spec_bounds_sum r)"
  shows "get_avg_salary f db = Inr (spec_int_avg (vacancies db))
         \<and> (filter spec_has_bound (vacancies db) \<noteq> [] \<longrightarrow>
              (\<exists>a. get_avg_salary f db = Inr (Some a) \<and>
                 \<bar>a - of_int (sum_list (map spec_int_midpoint
                                  (filter spec_has_bound (vacancies db))))
                      / of_nat (length (filter spec_has_bound (vacancies db)))\<bar>
                   \<le> 1 / (2 * 10 ^ select_div_scale
                                     (sum_list (map spec_int_midpoint
                                        (filter spec_has_bound (vacancies db))))
                                     (length (filter spec_has_bound (vacancies db)))) \<and>
                 (int (length (filter spec_has_bound (vacancies db)))
                    dvd sum_list (map spec_int_midpoint
                          (filter spec_has_bound (vacancies db))) \<longrightarrow>
                  a = of_int (sum_list (map spec_int_midpoint
                                 (filter spec_has_bound (vacancies db))))
                        / of_nat (length (filter spec_has_bound (vacancies db))))))"
proof -
  let ?sel = "filter spec_has_bound (vacancies db)"
  let ?S = "sum_list (map spec_int_midpoint ?sel)"
  let ?n = "length ?sel"
  have acc: "avg_accum (vacancies db) 0 0 = Inr (?S, ?n)"
    using avg_accum_spec [OF assms(2), of 0 0] by simp
  have q: "avg_salary_query (vacancies db) = Inr (spec_int_avg (vacancies db))"
    by (simp add: avg_salary_query_def acc spec_int_avg_def)
  have 1: "get_avg_salary f db = Inr (spec_int_avg (vacancies db))"
    using assms(1) by (simp add: get_avg_salary_def runs_through_def q)
  have 2: "\<exists>a. get_avg_salary f db = Inr (Some a) \<and>
             \<bar>a - of_int ?S / of_nat ?n\<bar> \<le> 1 / (2 * 10 ^ select_div_scale ?S ?n) \<and>
             (int ?n dvd ?S \<longrightarrow> a = of_int ?S / of_nat ?n)"
    if ne: "?sel \<noteq> []"
  proof (intro exI conjI impI)
    show "get_avg_salary f db = Inr (Some (numeric_div ?S ?n))"
      using ne by (simp add: 1 spec_int_avg_def)
    show "\<bar>numeric_div ?S ?n - of_int ?S / of_nat ?n\<bar>
            \<le> 1 / (2 * 10 ^ select_div_scale ?S ?n)"
      by (rule numeric_div_close)
    show "numeric_div ?S ?n = of_int ?S / of_nat ?n" if "int ?n dvd ?S"
      using ne that by (intro numeric_div_exact) simp_all
  qed
  from 1 2 show ?thesis by blast
qed

text \<open>
  The single vacancy with \<open>salary_from = 100000\<close> and no \<open>salary_to\<close>: 50000. A
  table with the bounds \<open>(1, 1)\<close>, \<open>(None, None)\<close>, \<open>(2, 2)\<close> and \<open>(5, None)\<close>: the
  second row does not count, the midpoints are 1, 2 and 2, the result is
  \<open>1.6666666666666667\<close>.
\<close>

theorem get_avg_salary_integer_midpoints_witness:
  "get_avg_salary no_faults
     \<lparr> companies = [], vacancies = [example_row 1 1 ''a'' (Some 100000) None] \<rparr>
   = Inr (Some 50000)
   \<and> get_avg_salary no_faults
       \<lparr> companies = [],
         vacancies = [example_row 1 1 ''a'' (Some 1) (Some 1),
                      example_row 2 1 ''b'' None None,
                      example_row 3 1 ''c'' (Some 2) (Some 2),
                      example_row 4 1 ''d'' (Some 5) None] \<rparr>
     = Inr (Some (16666666666666667 / 10000000000000000))"
proof -
  let ?r1 = "[example_row 1 1 ''a'' (Some 100000) None]"
  let ?r2 = "[example_row 1 1 ''a'' (Some 1) (Some 1), example_row 2 1 ''b'' None None,
              example_row 3 1 ''c'' (Some 2) (Some 2), example_row 4 1 ''d'' (Some 5) None]"
  have run: "runs_through no_faults"
    by (simp add: runs_through_def no_faults_def)
  have mid: "spec_int_midpoint r = int_div2 (spec_bounds_sum r)" for r
    by (simp add: spec_int_midpoint_def int_div2_drop_fraction)
  have n1: "numeric_div 50000 (Suc 0) = 50000"
    using numeric_div_exact [of "Suc 0" 50000] by simp
  have "numeric_div 5 3 = 16666666666666667 / 10000000000000000"
    by (simp add: numeric_div_def round_half_away_def select_div_scale_def
        nbase_first_digit_def floor_eq_iff)
  then have n2: "numeric_div 5 (Suc (Suc (Suc 0))) = 16666666666666667 / 10000000000000000"
    by (simp add: numeral_3_eq_3)
  have h1: "\<forall>r \<in> set (vacancies \<lparr> companies = [], vacancies = ?r1 \<rparr>).
              spec_has_bound r \<longrightarrow> int4 (spec_bounds_sum r)"
    by (simp add: example_row_def spec_bounds_sum_def map_filter_simps int4_def)
  have h2: "\<forall>r \<in> set (vacancies \<lparr> companies = [], vacancies = ?r2 \<rparr>).
              spec_has_bound r \<longrightarrow> int4 (spec_bounds_sum r)"
    by (simp add: example_row_def spec_bounds_sum_def map_filter_simps int4_def)
  have a1: "spec_int_avg ?r1 = Some 50000"
    by (simp add: spec_int_avg_def spec_has_bound_def mid spec_bounds_sum_def
        map_filter_simps example_row_def int_div2_def n1)
  have a2: "spec_int_avg ?r2 = Some (16666666666666667 / 10000000000000000)"
    by (simp add: spec_int_avg_def spec_has_bound_def mid spec_bounds_sum_def
        map_filter_simps example_row_def int_div2_def n2)
  from get_avg_salary_integer_midpoints [OF run h1]
       get_avg_salary_integer_midpoints [OF run h2]
  show ?thesis by (simp add: a1 a2)
qed

text \<open>
  The claim as it is worded fails where a sum of bounds is odd: for the single
  vacancy with \<open>salary_from = 100001\<close> the exact midpoint is 50000.5, the code
  returns 50000.
\<close>

theorem get_avg_salary_midpoint_counterexample:
  "get_avg_salary no_faults
     \<lparr> companies = [], vacancies = [example_row 1 1 ''a'' (Some 100001) None] \<rparr>
   = Inr (Some 50000)
   \<and> spec_avg_salary [example_row 1 1 ''a'' (Some 100001) None] = Some (100001 / 2)
   \<and> get_avg_salary no_faults
       \<lparr> companies = [], vacancies = [example_row 1 1 ''a'' (Some 100001) None] \<rparr>
     \<noteq> Inr (spec_avg_salary [example_row 1 1 ''a'' (Some 100001) None])"
proof -
  have n1: "numeric_div 50000 (Suc 0) = 50000"
    using numeric_div_exact [of "Suc 0" 50000] by simp
  have "get_avg_salary no_faults
     \<lparr> companies = [], vacancies = [example_row 1 1 ''a'' (Some 100001) None] \<rparr>
     = Inr (Some 50000)"
    by (simp add: get_avg_salary_def avg_salary_query_def no_faults_def example_row_def
        where_clause_def select_expr_def coalesce0_def int4_def int_div2_def n1)
  moreover have "spec_avg_salary [example_row 1 1 ''a'' (Some 100001) None]
      = Some (100001 / 2)"
    by (simp add: spec_avg_salary_def spec_has_bound_def spec_bounds_sum_def
        map_filter_simps example_row_def)
  ultimately show ?thesis by simp
qed

text \<open>
  Claim C9. When no vacancy row has a salary bound (the empty table included),
  \<open>get_avg_salary\<close> returns \<open>None\<close>, whatever the driver does, and the caller shows
  that there is no data; an average of zero is the different value \<open>Some 0\<close>,
  returned for a table whose only bound is 0.
\<close>

theorem get_avg_salary_no_data:
  assumes "\<forall>r \<in> set (vacancies db). v_salary_from r = None \<and> v_salary_to r = None"
  shows "get_avg_salary f db = Inr None
         \<and> display_average_salary f db = Inr NoData
         \<and> get_avg_salary no_faults
             \<lparr> companies = [], vacancies = [example_row 1 1 ''a'' (Some 0) None] \<rparr>
           = Inr (Some 0)"
proof -
  have "get_avg_salary f db = Inr None"
    using avg_salary_query_no_bounds [OF assms] by (simp add: get_avg_salary_def)
  moreover have "numeric_div 0 1 = 0"
    using numeric_div_exact [of 1 0] by simp
  then have "get_avg_salary no_faults
       \<lparr> companies = [], vacancies = [example_row 1 1 ''a'' (Some 0) None] \<rparr> = Inr (Some 0)"
    by (simp add: get_avg_salary_def avg_salary_query_def no_faults_def example_row_def
        where_clause_def select_expr_def coalesce0_def int4_def int_div2_def)
  ultimately show ?thesis by (simp add: display_average_salary_def bind_exn_def)
qed

theorem get_avg_salary_no_data_witness:
  "get_avg_salary no_faults empty_db = Inr None
   \<and> get_avg_salary no_faults
       \<lparr> companies = [], vacancies = [example_row 1 1 ''a'' None None] \<rparr> = Inr None
   \<and> display_average_salary no_faults empty_db = Inr NoData"
  using get_avg_salary_no_data [of empty_db no_faults]
    get_avg_salary_no_data
      [of "\<lparr> companies = [], vacancies = [example_row 1 1 ''a'' None None] \<rparr>" no_faults]
  by (simp add: empty_db_def example_row_def)

subsection \<open>Inserts\<close>

lemma upsert_company_one:
  "distinct (map c_company_id rows) \<Longrightarrow>
   filter (\<lambda>r. c_company_id r = c_company_id new) (upsert_company new rows) = [new]"
proof (induction rows)
  case Nil
  then show ?case by (simp add: upsert_company_def)
next
  case (Cons a rows)
  then show ?case
    by (auto simp: upsert_company_def filter_empty_conv image_iff split: if_splits)
qed

lemma upsert_company_key_list:
  "map c_company_id (upsert_company new rows) =
     (if c_company_id new \<in> set (map c_company_id rows) then map c_company_id rows
      else map c_company_id rows @ [c_company_id new])"
proof -
  have "c_company_id \<circ>
          (\<lambda>r. if c_company_id r = c_company_id new
               then r\<lparr> c_name := c_name new, c_site_url := c_site_url new,
                      c_open_vacancies := c_open_vacancies new \<rparr>
               else r) = c_company_id"
    by (auto simp: fun_eq_iff)
  then show ?thesis by (simp add: upsert_company_def)
qed

lemma upsert_company_distinct:
  "distinct (map c_company_id rows) \<Longrightarrow> distinct (map c_company_id (upsert_company new rows))"
  by (simp add: upsert_company_key_list)

text \<open>The \<open>UNIQUE\<close> constraints hold after every insert, whatever its outcome.\<close>

lemma insert_company_unique:
  "unique_keys db \<Longrightarrow> unique_keys (snd (insert_company f db cid nm site ov))"
  by (auto simp: insert_company_def insert_failed_def execute_insert_company_def
        unique_keys_def upsert_company_distinct split: sum.splits)

lemma insert_vacancy_unique:
  "unique_keys db \<Longrightarrow> unique_keys (snd (insert_vacancy f db new))"
  by (auto simp: insert_vacancy_def insert_failed_def execute_insert_vacancy_def
        unique_keys_def split: sum.splits)

lemma insert_company_True:
  "insert_company f db cid nm site ov = (Inr True, db') \<Longrightarrow>
   db' = db\<lparr> companies := upsert_company
            \<lparr> c_company_id = cid, c_name = nm, c_site_url = site,
              c_open_vacancies = Some ov \<rparr> (companies db) \<rparr>"
  by (auto simp: insert_company_def insert_failed_def execute_insert_company_def
        split: if_splits sum.splits)

lemma insert_vacancy_stored:
  "stored_vacancy db new \<Longrightarrow> snd (insert_vacancy f db new) = db"
  by (auto simp: insert_vacancy_def insert_failed_def execute_insert_vacancy_def
        stored_vacancy_def split: sum.splits)

lemma insert_vacancy_True_fresh:
  "\<not> stored_vacancy db new \<Longrightarrow> insert_vacancy f db new = (Inr True, db') \<Longrightarrow>
   db' = db\<lparr> vacancies := vacancies db @ [new] \<rparr>"
  by (auto simp: insert_vacancy_def insert_failed_def execute_insert_vacancy_def
        stored_vacancy_def split: if_splits sum.splits)

text \<open>
  Claim C3. In a store whose keys are unique: after two calls of
  \<open>insert_company\<close> with the same \<open>company_id\<close>, the second of which succeeds,
  there is exactly one \<open>companies\<close> row for that \<open>company_id\<close> and it carries
  the name, site and count of the second call. After a call of \<open>insert_vacancy\<close>
  that stores a new \<open>vacancy_id\<close>, a second call with the same \<open>vacancy_id\<close>,
  whatever its other arguments, changes nothing: there is exactly one
  \<open>vacancies\<close> row for that \<open>vacancy_id\<close>, every field as the first call gave it.
\<close>

theorem insert_twice_same_key:
  assumes "unique_keys db"
  shows "(insert_company f2 (snd (insert_company f1 db cid nm1 site1 ov1)) cid nm2 site2 ov2
            = (Inr True, db2) \<longrightarrow>
          filter (\<lambda>r. c_company_id r = cid) (companies db2)
            = [\<lparr> c_company_id = cid, c_name = nm2, c_site_url = site2,
                 c_open_vacancies = Some ov2 \<rparr>])
         \<and> (\<not> stored_vacancy db first \<and> insert_vacancy g1 db first = (Inr True, db1)
              \<and> v_vacancy_id second = v_vacancy_id first \<longrightarrow>
            snd (insert_vacancy g2 db1 second) = db1 \<and>
            filter (\<lambda>r. v_vacancy_id r = v_vacancy_id first) (vacancies db1) = [first])"
proof (intro conjI impI)
  let ?db1 = "snd (insert_company f1 db cid nm1 site1 ov1)"
  let ?new = "\<lparr> c_company_id = cid, c_name = nm2, c_site_url = site2,
                 c_open_vacancies = Some ov2 \<rparr>"
  assume "insert_company f2 ?db1 cid nm2 site2 ov2 = (Inr True, db2)"
  then have "companies db2 = upsert_company ?new (companies ?db1)"
    by (auto dest: insert_company_True)
  moreover have "distinct (map c_company_id (companies ?db1))"
    using insert_company_unique [OF assms] by (simp add: unique_keys_def)
  ultimately show "filter (\<lambda>r. c_company_id r = cid) (companies db2) = [?new]"
    using upsert_company_one [of "companies ?db1" ?new] by simp
next
  assume a: "\<not> stored_vacancy db first \<and> insert_vacancy g1 db first = (Inr True, db1)
      \<and> v_vacancy_id second = v_vacancy_id first"
  then have db1: "db1 = db\<lparr> vacancies := vacancies db @ [first] \<rparr>"
    by (auto dest: insert_vacancy_True_fresh)
  then have "stored_vacancy db1 second"
    using a by (simp add: stored_vacancy_def)
  then show "snd (insert_vacancy g2 db1 second) = db1"
    by (rule insert_vacancy_stored)
  have "filter (\<lambda>r. v_vacancy_id r = v_vacancy_id first) (vacancies db) = []"
    using a by (force simp: filter_empty_conv stored_vacancy_def image_iff)
  then show "filter (\<lambda>r. v_vacancy_id r = v_vacancy_id first) (vacancies db1) = [first]"
    by (simp add: db1)
qed

text \<open>
  Company 7 stored as \<open>A\<close>, then as \<open>B\<close>: one row, named \<open>B\<close>. Vacancy 5 stored
  with the name \<open>first\<close>, then offered again with the name \<open>second\<close>: one row,
  named \<open>first\<close>.
\<close>

theorem insert_twice_same_key_witness:
  "filter (\<lambda>r. c_company_id r = 7)
     (companies (snd (insert_company no_faults
        (snd (insert_company no_faults empty_db 7 ''A'' None 3)) 7 ''B'' (Some ''b.example'') 4)))
   = [\<lparr> c_company_id = 7, c_name = ''B'', c_site_url = Some ''b.example'',
        c_open_vacancies = Some 4 \<rparr>]
   \<and> vacancies (snd (insert_vacancy no_faults
        (snd (insert_vacancy no_faults one_company_db (example_row 5 1 ''first'' None None)))
        (example_row 5 1 ''second'' (Some 10) None)))
   = [example_row 5 1 ''first'' None None]"
proof -
  let ?c1 = "snd (insert_company no_faults empty_db 7 ''A'' None 3)"
  let ?c2 = "snd (insert_company no_faults ?c1 7 ''B'' (Some ''b.example'') 4)"
  let ?a = "example_row 5 1 ''first'' None None"
  let ?b = "example_row 5 1 ''second'' (Some 10) None"
  let ?v1 = "one_company_db\<lparr> vacancies := [?a] \<rparr>"
  have u: "unique_keys empty_db" "unique_keys one_company_db"
    by (simp_all add: unique_keys_def empty_db_def one_company_db_def)
  have c: "insert_company no_faults ?c1 7 ''B'' (Some ''b.example'') 4 = (Inr True, ?c2)"
    by (simp add: insert_company_def execute_insert_company_def no_faults_def empty_db_def
        int4_def int4_opt_def upsert_company_def)
  have v: "\<not> stored_vacancy one_company_db ?a
      \<and> insert_vacancy no_faults one_company_db ?a = (Inr True, ?v1)
      \<and> v_vacancy_id ?b = v_vacancy_id ?a"
    by (simp add: insert_vacancy_def execute_insert_vacancy_def no_faults_def
        one_company_db_def example_row_def int4_def int4_opt_def stored_vacancy_def)
  from insert_twice_same_key [OF u(1), of no_faults no_faults 7 "''A''" None 3 "''B''"
      "Some ''b.example''" 4 ?c2] c
  have 1: "filter (\<lambda>r. c_company_id r = 7) (companies ?c2)
      = [\<lparr> c_company_id = 7, c_name = ''B'', c_site_url = Some ''b.example'',
           c_open_vacancies = Some 4 \<rparr>]"
    by blast
  from insert_twice_same_key [OF u(2), of _ _ _ _ _ _ _ _ _ _ ?a no_faults ?v1 ?b no_faults] v
  have "snd (insert_vacancy no_faults ?v1 ?b) = ?v1"
    by blast
  then have 2: "vacancies (snd (insert_vacancy no_faults
        (snd (insert_vacancy no_faults one_company_db ?a)) ?b)) = [?a]"
    using v by simp
  from 1 2 show ?thesis by simp
qed

text \<open>A conflict on \<open>vacancy_id\<close> is a success that writes nothing.\<close>

lemma insert_vacancy_conflict_True:
  "runs_through f \<Longrightarrow> int4_row new \<Longrightarrow> stored_vacancy db new \<Longrightarrow>
   insert_vacancy f db new = (Inr True, db)"
  by (simp add: insert_vacancy_def execute_insert_vacancy_def runs_through_def int4_row_def
      stored_vacancy_def)

lemma insert_vacancies_loop_conflicts:
  "\<forall>i. runs_through (fs i) \<Longrightarrow> list_all int4_row rows \<Longrightarrow>
   list_all (stored_vacancy db) rows \<Longrightarrow>
   insert_vacancies_loop fs i db rows added = (Inr (added + length rows), db)"
  by (induction rows arbitrary: i added) (simp_all add: insert_vacancy_conflict_True)

text \<open>
  Claim C10. When the operation runs through and the integers of the row are in
  range, \<open>insert_vacancy\<close> returns \<open>True\<close> both for a new \<open>vacancy_id\<close> of a
  stored company, writing the row, and for a \<open>vacancy_id\<close> that is already
  stored, writing nothing. So the loop of the orchestrator, run over vacancies
  that are all stored already, counts every one of them as added and leaves the
  store as it was.
\<close>

theorem insert_vacancy_true_on_conflict:
  assumes "runs_through f" and "\<forall>i. runs_through (fs i)"
    and "int4_row new" and "list_all int4_row rows"
  shows "(stored_vacancy db new \<longrightarrow> insert_vacancy f db new = (Inr True, db))
         \<and> (\<not> stored_vacancy db new \<and> v_company_id new \<in> set (map c_company_id (companies db))
              \<longrightarrow> insert_vacancy f db new
                    = (Inr True, db\<lparr> vacancies := vacancies db @ [new] \<rparr>))
         \<and> (list_all (stored_vacancy db) rows \<longrightarrow>
              insert_vacancies_loop fs 0 db rows 0 = (Inr (length rows), db))"
proof -
  have "insert_vacancy f db new = (Inr True, db\<lparr> vacancies := vacancies db @ [new] \<rparr>)"
    if "\<not> stored_vacancy db new \<and> v_company_id new \<in> set (map c_company_id (companies db))"
    using that assms(1,3)
    by (simp add: insert_vacancy_def execute_insert_vacancy_def runs_through_def int4_row_def
        stored_vacancy_def)
  then show ?thesis
    using assms by (simp add: insert_vacancy_conflict_True insert_vacancies_loop_conflicts)
qed

text \<open>
  Two vacancies loaded into a store that holds their company, then loaded again:
  the second run counts 2 added and the store is the one the first run left.
\<close>

theorem insert_vacancy_true_on_conflict_witness:
  "insert_vacancies_loop (\<lambda>i. no_faults) 0
     (one_company_db\<lparr> vacancies := [example_row 5 1 ''a'' None None,
                                     example_row 6 1 ''b'' None None] \<rparr>)
     [example_row 5 1 ''a'' None None, example_row 6 1 ''b'' None None] 0
   = (Inr 2, one_company_db\<lparr> vacancies := [example_row 5 1 ''a'' None None,
                                            example_row 6 1 ''b'' None None] \<rparr>)
   \<and> insert_vacancies_loop (\<lambda>i. no_faults) 0 one_company_db
       [example_row 5 1 ''a'' None None, example_row 6 1 ''b'' None None] 0
   = (Inr 2, one_company_db\<lparr> vacancies := [example_row 5 1 ''a'' None None,
                                            example_row 6 1 ''b'' None None] \<rparr>)"
proof -
  let ?rows = "[example_row 5 1 ''a'' None None, example_row 6 1 ''b'' None None]"
  let ?db = "one_company_db\<lparr> vacancies := ?rows \<rparr>"
  have h: "runs_through no_faults" "\<forall>i. runs_through ((\<lambda>i. no_faults) i)"
    "int4_row (example_row 5 1 ''a'' None None)"
    "list_all int4_row ?rows" "list_all (stored_vacancy ?db) ?rows"
    by (simp_all add: runs_through_def no_faults_def int4_row_def example_row_def int4_def
        int4_opt_def stored_vacancy_def)
  from insert_vacancy_true_on_conflict [OF h(1) h(2) h(3) h(4), of ?db] h(5)
  have 1: "insert_vacancies_loop (\<lambda>i. no_faults) 0 ?db ?rows 0 = (Inr (length ?rows), ?db)"
    by blast
  have 2: "insert_vacancies_loop (\<lambda>i. no_faults) 0 one_company_db ?rows 0 = (Inr 2, ?db)"
    by (simp add: insert_vacancy_def execute_insert_vacancy_def no_faults_def
        one_company_db_def example_row_def int4_def int4_opt_def)
  from 1 2 show ?thesis by simp
qed

subsection \<open>Failure policy\<close>

text \<open>
  An insert whose statement or commit fails returns \<open>False\<close> and leaves the store
  unchanged, provided the rollback in its handler goes through; the counting
  query returns the empty list on every failure.
\<close>

lemma insert_company_no_exception:
  "\<not> rollback_fails f \<Longrightarrow> \<exists>ok. fst (insert_company f db cid nm site ov) = Inr ok"
  by (auto simp: insert_company_def insert_failed_def split: sum.splits)

lemma insert_vacancy_no_exception:
  "\<not> rollback_fails f \<Longrightarrow> \<exists>ok. fst (insert_vacancy f db new) = Inr ok"
  by (auto simp: insert_vacancy_def insert_failed_def split: sum.splits)

lemma get_companies_and_vacancies_count_returns:
  "\<exists>r. get_companies_and_vacancies_count f results = Inr r"
  by (simp add: get_companies_and_vacancies_count_def)

text \<open>
  Claim C7, at the input where the code departs from it: the statement of
  \<open>insert_company\<close> raises (the connection is lost) and the \<open>conn.rollback()\<close> of
  the handler raises in turn. The claim has the operation return \<open>False\<close>; the
  second exception leaves \<open>insert_company\<close> and reaches the caller.
\<close>

theorem insert_company_rollback_raises:
  "insert_company
     (no_faults\<lparr> execute_fails := True, rollback_fails := True \<rparr>) db cid nm site ov
   = (Inl DatabaseError, db)"
  by (simp add: insert_company_def insert_failed_def no_faults_def)

end
